theory Spec2Isabelle
  imports Complex_Main "HOL-Library.Word"
begin

chapter \<open>PayStabl documentation code: payment-required protocol handling\<close>

text \<open>
  The repository is a documentation site; its programs are the code blocks of the
  pages. This theory embeds the blocks the specification's testable properties rest
  on and settles each property on them:
  \<^item> \<^verbatim>\<open>docs/reference/x402_headers.mdx\<close>: \<^verbatim>\<open>X402Validator.parsePaymentHeader\<close>,
    \<^verbatim>\<open>X402Handler\<close>, \<^verbatim>\<open>SecurePaymentVerification.verifyPayment\<close>,
    \<^verbatim>\<open>PaymentRateLimit.checkRateLimit\<close>;
  \<^item> \<^verbatim>\<open>docs/security.mdx\<close>: \<^verbatim>\<open>PolicyEnforcement\<close>;
  \<^item> \<^verbatim>\<open>docs/architecture.mdx\<close>: the Solidity contract \<^verbatim>\<open>AgentWallet\<close>;
  \<^item> \<^verbatim>\<open>docs/examples/langgraph_retry.mdx\<close>: the Python class
    \<^verbatim>\<open>PaymentRetryWorkflow\<close>.

  Methods that a block calls and no page defines are parameters of the model (an
  environment record or an argument); promises are modelled by their settled value,
  a rejected promise or a raised exception by the left summand of a sum. Where calls
  of an \<^verbatim>\<open>async\<close> function share state that one of them reads before an \<^verbatim>\<open>await\<close> and
  writes after it, the calls are modelled with their interleavings.
\<close>

section \<open>Models\<close>

subsection \<open>Header codec: the \<^verbatim>\<open>X-Payment\<close> header\<close>

text \<open>
  \<^verbatim>\<open>PaymentResult\<close> as \<^verbatim>\<open>X402Handler\<close> reads it: \<^verbatim>\<open>txHash\<close>, \<^verbatim>\<open>signature\<close>,
  \<^verbatim>\<open>agentId\<close> and \<^verbatim>\<open>receipt\<close> (an object, serialised with \<^verbatim>\<open>JSON.stringify\<close>).
  Strings are byte strings. Record fields carry a prefix (\<open>pr_\<close>, \<open>p_\<close>, \<open>pd_\<close>, ...)
  where the property's name is also the name of a parameter elsewhere.
\<close>

record 'r PaymentResult =
  pr_txHash :: string
  pr_signature :: string
  pr_agentId :: string
  pr_receipt :: 'r

text \<open>
  \<^verbatim>\<open>formatPaymentHeader\<close>: the template literal
  \<^verbatim>\<open>`type=paystabl receipt=${payment.txHash} signature=${payment.signature} agent=${payment.agentId}`\<close>.
\<close>

definition formatPaymentHeader :: "('r, 'x) PaymentResult_scheme \<Rightarrow> string" where
  "formatPaymentHeader payment =
     ''type=paystabl receipt='' @ pr_txHash payment @ '' signature='' @ pr_signature payment
       @ '' agent='' @ pr_agentId payment"

text \<open>
  \<^verbatim>\<open>Payment\<close> as \<^verbatim>\<open>parsePaymentHeader\<close> builds it: every field is the result of
  \<^verbatim>\<open>params.get\<close>, a string or \<^verbatim>\<open>null\<close> (\<open>None\<close>).
\<close>

record Payment =
  p_type :: "string option"
  p_receipt :: "string option"
  p_signature :: "string option"
  p_agent :: "string option"
  p_amount :: "string option"

text \<open>
  \<^verbatim>\<open>URLSearchParams\<close> on a string, after the URL standard's
  \<^emph>\<open>application/x-www-form-urlencoded\<close> parser: a leading \<^verbatim>\<open>?\<close> is dropped, the input is
  split on \<^verbatim>\<open>&\<close>, empty pieces are skipped, a piece is split at its first \<^verbatim>\<open>=\<close> (no
  \<^verbatim>\<open>=\<close>: the whole piece is the name and the value is empty), \<^verbatim>\<open>+\<close> becomes a space and
  percent escapes are decoded. The final UTF-8 decoding is the identity on the bytes
  of well-formed text and is not modelled.
\<close>

fun split_acc :: "char \<Rightarrow> string \<Rightarrow> string \<Rightarrow> string list" where
  "split_acc c cur [] = [cur]"
| "split_acc c cur (x # xs) =
     (if x = c then cur # split_acc c [] xs else split_acc c (cur @ [x]) xs)"

definition split_on :: "char \<Rightarrow> string \<Rightarrow> string list" where
  "split_on c s = split_acc c [] s"

definition hex_digit :: "char \<Rightarrow> nat option" where
  "hex_digit c =
     (let n = (of_char c :: nat) in
      if 48 \<le> n \<and> n \<le> 57 then Some (n - 48)
      else if 65 \<le> n \<and> n \<le> 70 then Some (n - 55)
      else if 97 \<le> n \<and> n \<le> 102 then Some (n - 87)
      else None)"

fun percent_decode :: "string \<Rightarrow> string" where
  "percent_decode (p # a # b # rest) =
     (if p = CHR ''%'' then
        (case (hex_digit a, hex_digit b) of
           (Some h, Some l) \<Rightarrow> char_of (16 * h + l) # percent_decode rest
         | _ \<Rightarrow> p # percent_decode (a # b # rest))
      else p # percent_decode (a # b # rest))"
| "percent_decode (p # rest) = p # percent_decode rest"
| "percent_decode [] = []"

definition plus_to_space :: "string \<Rightarrow> string" where
  "plus_to_space s = map (\<lambda>c. if c = CHR ''+'' then CHR '' '' else c) s"

definition parse_pair :: "string \<Rightarrow> string \<times> string" where
  "parse_pair piece =
     (let name = takeWhile (\<lambda>c. c \<noteq> CHR ''='') piece;
          val = drop 1 (dropWhile (\<lambda>c. c \<noteq> CHR ''='') piece)
      in (percent_decode (plus_to_space name), percent_decode (plus_to_space val)))"

definition URLSearchParams :: "string \<Rightarrow> (string \<times> string) list" where
  "URLSearchParams init =
     (let input = (case init of c # rest \<Rightarrow> if c = CHR ''?'' then rest else init | [] \<Rightarrow> init)
      in map parse_pair (filter (\<lambda>piece. piece \<noteq> []) (split_on CHR ''&'' input)))"

text \<open>\<^verbatim>\<open>params.get(name)\<close>: the value of the first pair with that name, or \<^verbatim>\<open>null\<close>.\<close>

definition params_get :: "(string \<times> string) list \<Rightarrow> string \<Rightarrow> string option" where
  "params_get params name = map_of params name"

text \<open>\<^verbatim>\<open>header.replace(/=/g, '&')\<close>: every \<^verbatim>\<open>=\<close> becomes \<^verbatim>\<open>&\<close>.\<close>

definition replace_eq_amp :: "string \<Rightarrow> string" where
  "replace_eq_amp header = map (\<lambda>c. if c = CHR ''='' then CHR ''&'' else c) header"

definition parsePaymentHeader :: "string \<Rightarrow> Payment" where
  "parsePaymentHeader header =
     (let params = URLSearchParams (replace_eq_amp header) in
      \<lparr> p_type = params_get params ''type'',
        p_receipt = params_get params ''receipt'',
        p_signature = params_get params ''signature'',
        p_agent = params_get params ''agent'',
        p_amount = params_get params ''amount'' \<rparr>)"

subsection \<open>Rate limiter: \<^verbatim>\<open>PaymentRateLimit\<close>\<close>

text \<open>
  The object's state is the map \<^verbatim>\<open>attempts\<close>; the timers that \<^verbatim>\<open>setTimeout\<close> has
  scheduled and that have not fired yet are kept beside it, each with the time
  (milliseconds) at which it is due and the key its callback deletes.
\<close>

record PaymentRateLimit =
  attempts :: "string \<rightharpoonup> nat"
  timers :: "(nat \<times> string) list"

definition checkRateLimit :: "nat \<Rightarrow> string \<Rightarrow> PaymentRateLimit \<Rightarrow> bool \<times> PaymentRateLimit" where
  "checkRateLimit now clientId st =
     (let key = ''payment_attempts:'' @ clientId;
          n = (case attempts st key of None \<Rightarrow> 0 | Some a \<Rightarrow> a)
      in if n \<ge> 10 then (False, st)
         else (True, st\<lparr> attempts := (attempts st)(key \<mapsto> n + 1),
                          timers := timers st @ [(now + 60 * 60 * 1000, key)] \<rparr>))"

text \<open>
  The event loop: before a call made at time \<open>now\<close> runs, every timer due by then has
  fired; a timer's callback is \<^verbatim>\<open>this.attempts.delete(key)\<close>.
\<close>

definition run_timers :: "nat \<Rightarrow> PaymentRateLimit \<Rightarrow> PaymentRateLimit" where
  "run_timers now st =
     st\<lparr> attempts := foldl (\<lambda>m (due, key). m(key := None)) (attempts st)
                        (filter (\<lambda>(due, key). due \<le> now) (timers st)),
         timers := filter (\<lambda>(due, key). \<not> due \<le> now) (timers st) \<rparr>"

text \<open>
  A schedule of calls \<open>(time, clientId)\<close> in the order they are made, served one
  after the other by a limiter; the result lists the calls that were admitted.
\<close>

fun serve ::
  "(nat \<Rightarrow> string \<Rightarrow> PaymentRateLimit \<Rightarrow> bool \<times> PaymentRateLimit)
     \<Rightarrow> (nat \<times> string) list \<Rightarrow> PaymentRateLimit \<Rightarrow> (nat \<times> string) list" where
  "serve limiter [] st = []"
| "serve limiter ((now, clientId) # calls) st =
     (case limiter now clientId (run_timers now st) of
        (True, st') \<Rightarrow> (now, clientId) # serve limiter calls st'
      | (False, st') \<Rightarrow> serve limiter calls st')"

text \<open>
  The limiter that the property describes, to compare \<^verbatim>\<open>checkRateLimit\<close> with: at most
  ten attempts are admitted in a window and the counter is cleared once, one hour
  after the window opened. It differs from \<^verbatim>\<open>checkRateLimit\<close> in one place: only the
  call that opens a window (no counter for the key) schedules the reset.
\<close>

definition hourly_window_limit :: "nat \<Rightarrow> string \<Rightarrow> PaymentRateLimit \<Rightarrow> bool \<times> PaymentRateLimit" where
  "hourly_window_limit now clientId st =
     (let key = ''payment_attempts:'' @ clientId;
          n = (case attempts st key of None \<Rightarrow> 0 | Some a \<Rightarrow> a)
      in if n \<ge> 10 then (False, st)
         else (True, st\<lparr> attempts := (attempts st)(key \<mapsto> n + 1),
                          timers := (if attempts st key = None
                                     then timers st @ [(now + 60 * 60 * 1000, key)]
                                     else timers st) \<rparr>))"

definition rate_limit_init :: PaymentRateLimit where
  "rate_limit_init = \<lparr> attempts = Map.empty, timers = [] \<rparr>"

subsection \<open>Replay guard: \<^verbatim>\<open>SecurePaymentVerification.verifyPayment\<close>\<close>

text \<open>
  The object's fields \<^verbatim>\<open>requiredAmount\<close> and \<^verbatim>\<open>paymentAddress\<close>, and the methods
  \<^verbatim>\<open>verifySignature\<close>, \<^verbatim>\<open>verifyTransactionExists\<close> and \<^verbatim>\<open>getTransactionDetails\<close>,
  which query the chain and which no page defines. Amounts are numbers; the
  comparison is \<^verbatim>\<open><\<close>.
\<close>

record TransactionDetails =
  td_amount :: int
  td_recipient :: string
  td_timestamp :: nat

record VerificationResult =
  vr_valid :: bool
  vr_amount :: int
  vr_timestamp :: nat

record SecurePaymentVerification =
  requiredAmount :: int
  paymentAddress :: string
  verifySignature :: "Payment \<Rightarrow> bool"
  verifyTransactionExists :: "string option \<Rightarrow> bool"
  getTransactionDetails :: "string option \<Rightarrow> TransactionDetails"

text \<open>The messages of the five \<^verbatim>\<open>throw new Error(...)\<close>, in the order of the code.\<close>

datatype verify_error =
    Invalid_payment_signature
  | Payment_transaction_not_found
  | Insufficient_payment_amount
  | Payment_sent_to_wrong_address
  | Payment_already_consumed

text \<open>
  Modelled from the spec: \<^verbatim>\<open>checkPaymentUsed\<close> and \<^verbatim>\<open>markPaymentUsed\<close>, which
  \<^verbatim>\<open>verifyPayment\<close> calls and no page defines. The specification's Receipt Ledger
  ``records consumed payment proofs and rejects reuse'': the ledger is the list of the
  receipts marked so far, marking appends, and a receipt is used when it is on the list.
\<close>

type_synonym ledger = "string option list"

definition checkPaymentUsed :: "ledger \<Rightarrow> string option \<Rightarrow> bool" where
  "checkPaymentUsed used r = (r \<in> set used)"

definition markPaymentUsed :: "ledger \<Rightarrow> string option \<Rightarrow> ledger" where
  "markPaymentUsed used r = used @ [r]"

text \<open>
  \<^verbatim>\<open>verifyPayment\<close> is an \<^verbatim>\<open>async\<close> function: it awaits the three chain queries,
  \<^verbatim>\<open>checkPaymentUsed\<close> and \<^verbatim>\<open>markPaymentUsed\<close>, and other calls may run while it waits.
  The ledger is read in one place, \<^verbatim>\<open>checkPaymentUsed\<close>, and written in one place,
  \<^verbatim>\<open>markPaymentUsed\<close>, so a call is modelled in two parts. \<open>verify_checks\<close> is the
  function up to \<^verbatim>\<open>if (isUsed) throw\<close>: the four chain checks and the reading of the
  ledger, with the ledger as it is when \<^verbatim>\<open>checkPaymentUsed\<close> reads it; it gives the
  error thrown or the result object that the call returns after the mark.
\<close>

definition verify_checks ::
  "SecurePaymentVerification \<Rightarrow> ledger \<Rightarrow> Payment \<Rightarrow> verify_error + VerificationResult" where
  "verify_checks this used payment =
     (if \<not> verifySignature this payment then Inl Invalid_payment_signature
      else if \<not> verifyTransactionExists this (p_receipt payment) then Inl Payment_transaction_not_found
      else
        let txDetails = getTransactionDetails this (p_receipt payment) in
        if td_amount txDetails < requiredAmount this then Inl Insufficient_payment_amount
        else if td_recipient txDetails \<noteq> paymentAddress this then Inl Payment_sent_to_wrong_address
        else if checkPaymentUsed used (p_receipt payment) then Inl Payment_already_consumed
        else Inr \<lparr> vr_valid = True, vr_amount = td_amount txDetails,
                     vr_timestamp = td_timestamp txDetails \<rparr>)"

text \<open>
  A call that no other call interleaves with: the checks, then the mark on the same
  ledger.
\<close>

definition verifyPayment ::
  "SecurePaymentVerification \<Rightarrow> ledger \<Rightarrow> Payment \<Rightarrow> verify_error + VerificationResult \<times> ledger" where
  "verifyPayment this used payment =
     (case verify_checks this used payment of
        Inl e \<Rightarrow> Inl e
      | Inr res \<Rightarrow> Inr (res, markPaymentUsed used (p_receipt payment)))"

text \<open>
  Calls that overlap. An event is the start of a call, which runs its checks on the
  ledger as it is then (with the verifier as it is at that call) and either throws or
  is suspended before \<^verbatim>\<open>markPaymentUsed\<close>; or the resumption of the \<open>k\<close>-th suspended
  call, which marks its receipt and returns. \<open>interleave\<close> runs a list of events on a
  ledger and a list of suspended calls (each with its receipt and the result it will
  return); it pairs the receipt of every call that ended with its outcome, in the
  order in which the calls ended, and gives the final ledger. A resumption of a call
  that does not exist is skipped.
\<close>

datatype call_event = Starts SecurePaymentVerification Payment | Resumes nat

fun interleave ::
  "ledger \<Rightarrow> (string option \<times> VerificationResult) list \<Rightarrow> call_event list
     \<Rightarrow> (string option \<times> (verify_error + VerificationResult)) list \<times> ledger" where
  "interleave used suspended [] = ([], used)"
| "interleave used suspended (Starts this payment # events) =
     (case verify_checks this used payment of
        Inl e \<Rightarrow>
          (case interleave used suspended events of
             (outs, u) \<Rightarrow> ((p_receipt payment, Inl e) # outs, u))
      | Inr res \<Rightarrow> interleave used (suspended @ [(p_receipt payment, res)]) events)"
| "interleave used suspended (Resumes k # events) =
     (if k < length suspended then
        (case interleave (markPaymentUsed used (fst (suspended ! k)))
                (take k suspended @ drop (Suc k) suspended) events of
           (outs, u) \<Rightarrow> ((fst (suspended ! k), Inr (snd (suspended ! k))) # outs, u))
      else interleave used suspended events)"

text \<open>The number of calls for receipt \<open>r\<close> that succeeded.\<close>

definition commits :: "string option \<Rightarrow> (string option \<times> (verify_error + VerificationResult)) list \<Rightarrow> nat" where
  "commits r outs = length (filter (\<lambda>(r', out). r' = r \<and> \<not> isl out) outs)"

subsection \<open>Client side: \<^verbatim>\<open>X402Handler\<close>\<close>

text \<open>
  \<^verbatim>\<open>PaymentDetails\<close> as \<^verbatim>\<open>parseX402Headers\<close> builds it. A \<^verbatim>\<open>Date\<close> is its time value
  in milliseconds, \<open>None\<close> for an invalid date.
\<close>

record ('m, 'a) PaymentDetails =
  pd_acceptedMethods :: 'm
  pd_amount :: 'a
  pd_purpose :: "string option"
  pd_expiresAt :: "int option"

text \<open>
  The argument of \<^verbatim>\<open>processPayment\<close>. \<^verbatim>\<open>paymentDetails.currency\<close> and
  \<^verbatim>\<open>paymentDetails.recipient\<close> are read from an object that has no such properties:
  they are \<^verbatim>\<open>undefined\<close>, here \<open>None\<close>.
\<close>

record 'a PaymentRequest =
  rq_amount :: 'a
  rq_currency :: "string option"
  rq_purpose :: "string option"
  rq_recipient :: "string option"

record PaymentHeaders =
  X_Payment :: string
  X_Payment_Receipt :: string

text \<open>
  What the handler calls and no page defines: \<^verbatim>\<open>parseAcceptPayment\<close>, \<^verbatim>\<open>parseAmount\<close>,
  the \<^verbatim>\<open>Date\<close> constructor on a header value, \<^verbatim>\<open>paystabl.processPayment\<close> (the
  payment and its signing; a rejection is \<open>Inl\<close> with its code) and
  \<^verbatim>\<open>JSON.stringify\<close> on the receipt.
\<close>

record ('m, 'a, 'r) X402Handler =
  parseAcceptPayment :: "string option \<Rightarrow> 'm"
  parseAmount :: "string option \<Rightarrow> 'a"
  new_Date :: "string option \<Rightarrow> int option"
  processPayment :: "'a PaymentRequest \<Rightarrow> string + 'r PaymentResult"
  JSON_stringify :: "'r \<Rightarrow> string"

text \<open>\<^verbatim>\<open>Headers\<close> is its method \<^verbatim>\<open>get\<close>: a header's value, or \<^verbatim>\<open>null\<close>.\<close>

type_synonym Headers = "string \<Rightarrow> string option"

definition parseX402Headers :: "('m, 'a, 'r) X402Handler \<Rightarrow> Headers \<Rightarrow> ('m, 'a) PaymentDetails" where
  "parseX402Headers this headers =
     (let acceptPayment = headers ''Accept-Payment'';
          amount = headers ''Payment-Amount'';
          purpose = headers ''Payment-Purpose'';
          expires = headers ''Payment-Expires''
      in \<lparr> pd_acceptedMethods = parseAcceptPayment this acceptPayment,
           pd_amount = parseAmount this amount,
           pd_purpose = purpose,
           pd_expiresAt = new_Date this expires \<rparr>)"

text \<open>
  \<^verbatim>\<open>handleX402Response\<close>, with the calls it makes to \<^verbatim>\<open>processPayment\<close> returned as a
  list beside its result (\<open>Inl\<close>: the rejection of \<^verbatim>\<open>processPayment\<close>, which the
  \<^verbatim>\<open>await\<close> rethrows).
\<close>

definition handleX402Response ::
  "('m, 'a, 'r) X402Handler \<Rightarrow> Headers \<Rightarrow> 'a PaymentRequest list \<times> (string + PaymentHeaders)" where
  "handleX402Response this headers =
     (let paymentDetails = parseX402Headers this headers;
          request = \<lparr> rq_amount = pd_amount paymentDetails,
                      rq_currency = None,
                      rq_purpose = pd_purpose paymentDetails,
                      rq_recipient = None \<rparr>
      in ([request],
          (case processPayment this request of
             Inl e \<Rightarrow> Inl e
           | Inr payment \<Rightarrow>
               Inr \<lparr> X_Payment = formatPaymentHeader payment,
                     X_Payment_Receipt = JSON_stringify this (pr_receipt payment) \<rparr>)))"

subsection \<open>Policy engine: \<^verbatim>\<open>PolicyEnforcement\<close>\<close>

record SpendingPolicies =
  dailyLimit :: string
  weeklyLimit :: string
  monthlyLimit :: string
  perTransactionLimit :: string
  allowedHours :: "nat list"
  allowedDays :: "nat list"
  timezone :: string
  maxTransactionsPerHour :: nat
  maxTransactionsPerDay :: nat
  cooldownPeriod :: nat
  suspiciousAmountThreshold :: string
  velocityAlertThreshold :: nat
  emergencyStopEnabled :: bool

text \<open>
  \<^verbatim>\<open>ValidationResult\<close> is the type of what \<^verbatim>\<open>checkSpendingLimits\<close> returns
  (\<^verbatim>\<open>valid\<close>, \<^verbatim>\<open>error\<close>, \<^verbatim>\<open>requiresApproval\<close>) and of what \<^verbatim>\<open>validateTransaction\<close>
  returns (\<^verbatim>\<open>valid\<close>, \<^verbatim>\<open>errors\<close>, \<^verbatim>\<open>requiresApproval\<close>); a property an object literal
  leaves out is \<^verbatim>\<open>undefined\<close>, here \<open>None\<close>.
\<close>

record ValidationResult =
  valid :: bool
  error :: "string option"
  errors :: "string option list option"
  requiresApproval :: "bool option"

record 'a CurrentSpending =
  daily :: 'a

record Transaction =
  tx_amount :: string

text \<open>
  What the class calls and no page defines: \<^verbatim>\<open>getPolicies\<close>, \<^verbatim>\<open>getCurrentSpending\<close>,
  \<^verbatim>\<open>checkTimeRestrictions\<close>, \<^verbatim>\<open>checkVelocityLimits\<close> and \<^verbatim>\<open>checkSuspiciousActivity\<close>;
  and JavaScript's \<^verbatim>\<open>parseFloat\<close>, with the numbers it yields: a type \<open>'a\<close> with
  \<^verbatim>\<open>+\<close> and \<^verbatim>\<open>>\<close> of which nothing is assumed (so that the model also covers
  floating-point rounding and \<^verbatim>\<open>NaN\<close>).
\<close>

record 'a PolicyEnforcement =
  getPolicies :: "string \<Rightarrow> SpendingPolicies"
  getCurrentSpending :: "string \<Rightarrow> 'a CurrentSpending"
  checkTimeRestrictions :: "SpendingPolicies \<Rightarrow> ValidationResult"
  checkVelocityLimits :: "string \<Rightarrow> SpendingPolicies \<Rightarrow> ValidationResult"
  checkSuspiciousActivity :: "string \<Rightarrow> Transaction \<Rightarrow> SpendingPolicies \<Rightarrow> ValidationResult"
  parseFloat :: "string \<Rightarrow> 'a"

definition checkSpendingLimits ::
  "('a :: {plus, ord}) PolicyEnforcement \<Rightarrow> string \<Rightarrow> string \<Rightarrow> SpendingPolicies \<Rightarrow> ValidationResult" where
  "checkSpendingLimits this agentId amount policies =
     (let currentSpend = getCurrentSpending this agentId in
      if parseFloat this amount > parseFloat this (perTransactionLimit policies) then
        \<lparr> valid = False,
          error = Some ''Transaction exceeds per-transaction limit'',
          errors = None,
          requiresApproval = Some True \<rparr>
      else if daily currentSpend + parseFloat this amount > parseFloat this (dailyLimit policies) then
        \<lparr> valid = False,
          error = Some ''Transaction would exceed daily limit'',
          errors = None,
          requiresApproval = Some False \<rparr>
      else \<lparr> valid = True, error = None, errors = None, requiresApproval = None \<rparr>)"

text \<open>
  \<^verbatim>\<open>validateTransaction\<close>: \<^verbatim>\<open>Promise.all\<close> over the four checks, then
  \<^verbatim>\<open>filter\<close>, \<^verbatim>\<open>map\<close> and \<^verbatim>\<open>some\<close> over the results. \<^verbatim>\<open>f.requiresApproval\<close> is truthy
  when it is \<^verbatim>\<open>true\<close>.
\<close>

definition validateTransaction ::
  "('a :: {plus, ord}) PolicyEnforcement \<Rightarrow> string \<Rightarrow> Transaction \<Rightarrow> ValidationResult" where
  "validateTransaction this agentId transaction =
     (let policies = getPolicies this agentId;
          validations =
            [ checkSpendingLimits this agentId (tx_amount transaction) policies,
              checkTimeRestrictions this policies,
              checkVelocityLimits this agentId policies,
              checkSuspiciousActivity this agentId transaction policies ];
          failed = filter (\<lambda>v. \<not> valid v) validations
      in \<lparr> valid = (length failed = 0),
           error = None,
           errors = Some (map error failed),
           requiresApproval = Some (list_ex (\<lambda>f. requiresApproval f = Some True) failed) \<rparr>)"

subsection \<open>The Solidity contract \<^verbatim>\<open>AgentWallet\<close>\<close>

text \<open>
  \<^verbatim>\<open>uint256\<close> and \<^verbatim>\<open>address\<close> are machine words; a \<^verbatim>\<open>mapping\<close> is a total function
  (an absent key reads as zero or \<^verbatim>\<open>false\<close>). A call either reverts, leaving the
  storage as it was, or returns the new storage.

  The page gives no compiler version. The first argument of \<open>executePayment\<close> says
  whether arithmetic is checked (Solidity 0.8 and later: an overflowing \<^verbatim>\<open>+\<close> reverts
  with a panic) or wraps around (before 0.8). The outcome of the external call
  \<^verbatim>\<open>recipient.call{value: amount}(data)\<close> is an argument.
\<close>

type_synonym address = "160 word"
type_synonym uint256 = "256 word"

record AgentWallet =
  aw_agent :: address
  dailyLimits :: "address \<Rightarrow> uint256"
  dailySpent :: "address \<Rightarrow> uint256"
  allowlist :: "address \<Rightarrow> bool"

datatype revert =
    Only_agent_can_execute
  | Daily_limit_exceeded
  | Recipient_not_allowed
  | Payment_failed
  | Panic_overflow

definition add_overflows :: "uint256 \<Rightarrow> uint256 \<Rightarrow> bool" where
  "add_overflows a b = (2 ^ 256 \<le> unat a + unat b)"

text \<open>
  The modifiers run in the order written (\<^verbatim>\<open>onlyAgent\<close>, then \<^verbatim>\<open>withinLimits\<close>), then
  the body.
\<close>

definition executePayment ::
  "bool \<Rightarrow> AgentWallet \<Rightarrow> address \<Rightarrow> address \<Rightarrow> uint256 \<Rightarrow> bool \<Rightarrow> revert + AgentWallet" where
  "executePayment checked w msg_sender recipient amount success =
     (if msg_sender \<noteq> aw_agent w then Inl Only_agent_can_execute
      else if checked \<and> add_overflows (dailySpent w msg_sender) amount then Inl Panic_overflow
      else if \<not> dailySpent w msg_sender + amount \<le> dailyLimits w msg_sender then
        Inl Daily_limit_exceeded
      else if \<not> allowlist w recipient then Inl Recipient_not_allowed
      else
        let w' = w\<lparr> dailySpent := (dailySpent w)(msg_sender := dailySpent w msg_sender + amount) \<rparr>
        in if \<not> success then Inl Payment_failed else Inr w')"

text \<open>
  A sequence of transactions \<open>(msg.sender, recipient, amount, outcome of the external
  call)\<close>. Each outcome is the revert reason or the amount paid.
\<close>

fun execute_all ::
  "bool \<Rightarrow> AgentWallet \<Rightarrow> (address \<times> address \<times> uint256 \<times> bool) list
     \<Rightarrow> (revert + uint256) list \<times> AgentWallet" where
  "execute_all checked w [] = ([], w)"
| "execute_all checked w ((msg_sender, recipient, amount, success) # rest) =
     (case executePayment checked w msg_sender recipient amount success of
        Inl e \<Rightarrow> (case execute_all checked w rest of (outs, w'') \<Rightarrow> (Inl e # outs, w''))
      | Inr w' \<Rightarrow> (case execute_all checked w' rest of (outs, w'') \<Rightarrow> (Inr amount # outs, w'')))"

text \<open>The total of the amounts paid, as a natural number.\<close>

definition committed :: "(revert + uint256) list \<Rightarrow> nat" where
  "committed outs = sum_list (map (\<lambda>out. case out of Inl e \<Rightarrow> 0 | Inr a \<Rightarrow> unat a) outs)"

subsection \<open>Retry and fallback: the Python class \<^verbatim>\<open>PaymentRetryWorkflow\<close>\<close>

datatype RetryStrategy = EXPONENTIAL_BACKOFF | LINEAR_BACKOFF | IMMEDIATE | ALTERNATIVE_SERVICE


text \<open>
  The entries of \<^verbatim>\<open>payment_attempts\<close>: the \<^verbatim>\<open>attempt_info\<close> dictionaries of
  \<^verbatim>\<open>attempt_payment\<close> and the \<^verbatim>\<open>switch_info\<close> dictionaries of
  \<^verbatim>\<open>try_alternative_service\<close>. Of an attempt the keys \<^verbatim>\<open>attempt\<close>, \<^verbatim>\<open>service\<close>,
  \<^verbatim>\<open>amount\<close>, \<^verbatim>\<open>timestamp\<close>, \<^verbatim>\<open>status\<close> and \<^verbatim>\<open>error_code\<close> are kept (the workflow reads
  no other). A timestamp is the value of the clock, in seconds.
\<close>

datatype attempt_status = Status_success | Status_failed

datatype log_entry =
    Attempt_info (ai_attempt: nat) (ai_service: string) (ai_amount: string)
      (ai_timestamp: nat) (ai_status: attempt_status) (ai_error_code: "string option")
  | Switch_info (si_from: string) (si_to: string) (si_timestamp: nat)

datatype summary =
    Success_summary (service_used: string) (sum_total_cost: rat) (sum_attempts: nat)
      (sum_retry_count: nat)
  | Failure_summary (final_error: string) (sum_total_cost: rat) (sum_attempts: nat)
      (services_tried: "string set")

text \<open>
  \<^verbatim>\<open>WorkflowState\<close>, with the keys the nodes add (\<^verbatim>\<open>retry_strategy\<close>,
  \<^verbatim>\<open>completion_summary\<close>). A key that may be read before it is written is an
  \<open>option\<close>. \<open>clock\<close> is not a key of the dictionary: it is the time, in seconds,
  that the run has spent in \<^verbatim>\<open>asyncio.sleep\<close> so far, which is what
  \<^verbatim>\<open>datetime.now()\<close> shows when the calls themselves take no time.
\<close>

record WorkflowState =
  task :: string
  payment_attempts :: "log_entry list"
  current_service :: string
  retry_count :: nat
  max_retries :: nat
  fallback_services :: "string list"
  ws_result :: "string option"
  ws_error :: "string option"
  total_cost :: rat
  retry_strategy :: "RetryStrategy option"
  completion_summary :: "summary option"
  clock :: nat


























text \<open>What a final state's log shows: the attempts, the switches, the attempts' times.\<close>

fun is_attempt :: "log_entry \<Rightarrow> bool" where
  "is_attempt (Attempt_info n s a ts status c) = True"
| "is_attempt (Switch_info f t ts) = False"

definition attempts_logged :: "WorkflowState \<Rightarrow> log_entry list" where
  "attempts_logged state = filter is_attempt (payment_attempts state)"

definition switches_logged :: "WorkflowState \<Rightarrow> log_entry list" where
  "switches_logged state = filter (\<lambda>e. \<not> is_attempt e) (payment_attempts state)"



text \<open>
  For the replay guard: a verifier and payments with the same receipt to run it on;
  the verifier accepts the signature \<open>good\<close> only.
\<close>

definition demo_verifier :: SecurePaymentVerification where
  "demo_verifier =
     \<lparr> requiredAmount = 250, paymentAddress = ''shop'',
       verifySignature = (\<lambda>p. p_signature p = Some ''good''),
       verifyTransactionExists = (\<lambda>r. r = Some ''0xabc''),
       getTransactionDetails =
         (\<lambda>r. \<lparr> td_amount = 250, td_recipient = ''shop'', td_timestamp = 7 \<rparr>) \<rparr>"

definition demo_payment :: "string \<Rightarrow> Payment" where
  "demo_payment sig =
     \<lparr> p_type = Some ''paystabl'', p_receipt = Some ''0xabc'', p_signature = Some sig,
       p_agent = Some ''agent_123'', p_amount = None \<rparr>"

text \<open>
  For the policy engine: a \<^verbatim>\<open>parseFloat\<close> on the decimal strings used below (with
  exact rational values), a policy set, and an instance of the class whose time
  check returns a given result and whose velocity and suspicious-activity checks pass.
\<close>

definition demo_parseFloat :: "string \<Rightarrow> rat" where
  "demo_parseFloat s =
     (if s = ''5.00'' then 5 else if s = ''6.00'' then 6 else if s = ''10.00'' then 10
      else if s = ''25.00'' then 25 else if s = ''30.00'' then 30 else 0)"

definition demo_policies :: "string \<Rightarrow> string \<Rightarrow> string \<Rightarrow> SpendingPolicies" where
  "demo_policies per_tx per_day per_week =
     \<lparr> dailyLimit = per_day, weeklyLimit = per_week, monthlyLimit = per_week,
       perTransactionLimit = per_tx, allowedHours = [9, 10, 11, 12, 13, 14, 15, 16, 17],
       allowedDays = [1, 2, 3, 4, 5], timezone = ''UTC'', maxTransactionsPerHour = 10,
       maxTransactionsPerDay = 50, cooldownPeriod = 0, suspiciousAmountThreshold = ''30.00'',
       velocityAlertThreshold = 5, emergencyStopEnabled = False \<rparr>"

definition check_passed :: ValidationResult where
  "check_passed = \<lparr> valid = True, error = None, errors = None, requiresApproval = None \<rparr>"

definition check_failed :: "string \<Rightarrow> ValidationResult" where
  "check_failed msg =
     \<lparr> valid = False, error = Some msg, errors = None, requiresApproval = None \<rparr>"

definition demo_enforcement ::
  "SpendingPolicies \<Rightarrow> rat \<Rightarrow> ValidationResult \<Rightarrow> rat PolicyEnforcement" where
  "demo_enforcement policies spent time_check =
     \<lparr> getPolicies = (\<lambda>agentId. policies),
       getCurrentSpending = (\<lambda>agentId. \<lparr> daily = spent \<rparr>),
       checkTimeRestrictions = (\<lambda>p. time_check),
       checkVelocityLimits = (\<lambda>agentId p. check_passed),
       checkSuspiciousActivity = (\<lambda>agentId t p. check_passed),
       parseFloat = demo_parseFloat \<rparr>"

text \<open>
  For the wallet: the agent is address 1 with a daily limit of 1000 (10.00 in
  hundredths), nothing spent, and address 2 on the allowlist.
\<close>

definition demo_wallet :: AgentWallet where
  "demo_wallet =
     \<lparr> aw_agent = 1, dailyLimits = (\<lambda>a. 0)(1 := 1000), dailySpent = (\<lambda>a. 0),
       allowlist = (\<lambda>a. False)(2 := True) \<rparr>"

text \<open>
  For the client-side handler: a response offering 2.50 USD that expires on 15 January
  2024 at 10:30:00 GMT (time value 1705314600000), and a handler whose
  \<^verbatim>\<open>processPayment\<close> succeeds.
\<close>

definition demo_handler :: "(string option, rat, string) X402Handler" where
  "demo_handler =
     \<lparr> parseAcceptPayment = (\<lambda>h. h),
       parseAmount = (\<lambda>h. if h = Some ''amount=2.50 currency=USD'' then 5 / 2 else 0),
       new_Date =
         (\<lambda>h. if h = Some ''Mon, 15 Jan 2024 10:30:00 GMT'' then Some 1705314600000 else None),
       processPayment =
         (\<lambda>request. Inr \<lparr> pr_txHash = ''0xabc'', pr_signature = ''sig'',
                            pr_agentId = ''agent_123'', pr_receipt = ''{}'' \<rparr>),
       JSON_stringify = (\<lambda>r. r) \<rparr>"

definition demo_headers :: Headers where
  "demo_headers =
     [''Accept-Payment'' \<mapsto> ''paystabl agent=required'',
      ''Payment-Amount'' \<mapsto> ''amount=2.50 currency=USD'',
      ''Payment-Purpose'' \<mapsto> ''API access fee'',
      ''Payment-Expires'' \<mapsto> ''Mon, 15 Jan 2024 10:30:00 GMT'']"

text \<open>
  For the workflow: the service list that \<^verbatim>\<open>validate_request\<close> configures and a
  service's position in it; what the log's last entry shows after a successful and
  after a failed attempt; the invariant of each node of the graph and the measure
  that every node decreases; two payment endpoints, one that always raises
  \<^verbatim>\<open>NETWORK_ERROR\<close> and one that always raises \<^verbatim>\<open>API_UNAVAILABLE\<close>; an initial state
  with the task only, and the initial state of the page's ``Advanced Configuration'',
  which passes \<^verbatim>\<open>max_retries\<close> = 3.
\<close>

definition configured_services :: "string list" where
  "configured_services =
     [''premium_ai_service'', ''standard_ai_service'', ''basic_ai_service'', ''free_service'']"

definition tier :: "string \<Rightarrow> nat" where
  "tier s = (if s = ''premium_ai_service'' then 0 else if s = ''standard_ai_service'' then 1
             else if s = ''basic_ai_service'' then 2 else 3)"




definition base_inv :: "WorkflowState \<Rightarrow> bool" where
  "base_inv st =
     (fallback_services st = configured_services \<and> max_retries st = 5 \<and> retry_count st \<le> 5 \<and>
      current_service st \<in> set configured_services \<and>
      (current_service st = ''free_service'' \<longrightarrow> retry_count st = 0) \<and>
      length (switches_logged st) = tier (current_service st))"







section \<open>C7: the proof header and its parser\<close>

lemma parse_pair_no_eq:
  assumes "CHR ''='' \<notin> set piece"
  shows "snd (parse_pair piece) = []"
proof -
  from assms have dw: "dropWhile (\<lambda>c. c \<noteq> CHR ''='') piece = []"
    by auto
  show ?thesis unfolding parse_pair_def Let_def dw by (simp add: plus_to_space_def)
qed

lemma split_acc_set: "x \<in> set (split_acc c cur s) \<Longrightarrow> set x \<subseteq> set cur \<union> set s"
proof (induction s arbitrary: cur)
  case Nil
  then show ?case by simp
next
  case (Cons a s)
  show ?case
  proof (cases "a = c")
    case True
    with Cons.prems have "x = cur \<or> x \<in> set (split_acc c [] s)" by simp
    then show ?thesis using Cons.IH [of "[]"] by auto
  next
    case False
    with Cons.prems have "x \<in> set (split_acc c (cur @ [a]) s)" by simp
    then show ?thesis using Cons.IH [of "cur @ [a]"] by auto
  qed
qed

lemma replace_eq_amp_no_eq: "CHR ''='' \<notin> set (replace_eq_amp h)"
  by (auto simp: replace_eq_amp_def)

lemma URLSearchParams_values:
  assumes "CHR ''='' \<notin> set s" and "(n, v) \<in> set (URLSearchParams s)"
  shows "v = []"
proof -
  define input where
    "input = (case s of c # rest \<Rightarrow> if c = CHR ''?'' then rest else s | [] \<Rightarrow> s)"
  have sub: "set input \<subseteq> set s"
    by (auto simp: input_def split: list.splits if_splits)
  from assms(2) obtain piece
    where p: "piece \<in> set (split_on CHR ''&'' input)" and nv: "(n, v) = parse_pair piece"
    by (auto simp: URLSearchParams_def input_def [symmetric] Let_def)
  from p have "set piece \<subseteq> set input"
    using split_acc_set [of piece "CHR ''&''" "[]" input] by (simp add: split_on_def)
  with sub assms(1) have "CHR ''='' \<notin> set piece" by auto
  then have "snd (parse_pair piece) = []" by (rule parse_pair_no_eq)
  with nv show ?thesis by (metis snd_conv)
qed

text \<open>
  Once every \<^verbatim>\<open>=\<close> has become \<^verbatim>\<open>&\<close>, no piece has a value: whatever the header, a
  field that \<^verbatim>\<open>parsePaymentHeader\<close> reads is \<^verbatim>\<open>null\<close> or the empty string.
\<close>

lemma parsed_field_empty:
  "params_get (URLSearchParams (replace_eq_amp h)) name = None \<or>
   params_get (URLSearchParams (replace_eq_amp h)) name = Some []"
proof (cases "params_get (URLSearchParams (replace_eq_amp h)) name")
  case None
  then show ?thesis by simp
next
  case (Some v)
  then have "(name, v) \<in> set (URLSearchParams (replace_eq_amp h))"
    by (simp add: params_get_def map_of_SomeD)
  then have "v = []" using URLSearchParams_values [OF replace_eq_amp_no_eq] by blast
  with Some show ?thesis by simp
qed

lemma parsed_type_empty: "p_type (parsePaymentHeader (formatPaymentHeader payment)) = Some []"
  by (simp add: parsePaymentHeader_def formatPaymentHeader_def replace_eq_amp_def
      URLSearchParams_def split_on_def Let_def parse_pair_def plus_to_space_def params_get_def)

text \<open>
  Claim C7 (building a proof header and parsing it back recovers \<^verbatim>\<open>type\<close>,
  \<^verbatim>\<open>receipt\<close>, \<^verbatim>\<open>signature\<close> and \<^verbatim>\<open>agent\<close>) does not hold of \<^verbatim>\<open>parsePaymentHeader\<close>: for
  every payment the parser's \<^verbatim>\<open>type\<close> is the empty string, not \<^verbatim>\<open>paystabl\<close>, and each
  of the other fields is \<^verbatim>\<open>null\<close> or the empty string. For the payment with
  \<^verbatim>\<open>txHash\<close> \<open>0xabc\<close>, \<^verbatim>\<open>signature\<close> \<open>sig\<close> and \<^verbatim>\<open>agentId\<close> \<open>agent_123\<close> the header is
  \<^verbatim>\<open>type=paystabl receipt=0xabc signature=sig agent=agent_123\<close> and the parser returns
  \<^verbatim>\<open>type\<close> empty and the other four fields \<^verbatim>\<open>null\<close>.
\<close>

theorem proof_header_not_recovered:
  "p_type (parsePaymentHeader (formatPaymentHeader payment)) = Some [] \<and>
   (p_receipt (parsePaymentHeader (formatPaymentHeader payment)) = None \<or>
    p_receipt (parsePaymentHeader (formatPaymentHeader payment)) = Some []) \<and>
   (p_signature (parsePaymentHeader (formatPaymentHeader payment)) = None \<or>
    p_signature (parsePaymentHeader (formatPaymentHeader payment)) = Some []) \<and>
   (p_agent (parsePaymentHeader (formatPaymentHeader payment)) = None \<or>
    p_agent (parsePaymentHeader (formatPaymentHeader payment)) = Some []) \<and>
   formatPaymentHeader
     \<lparr> pr_txHash = ''0xabc'', pr_signature = ''sig'', pr_agentId = ''agent_123'', pr_receipt = () \<rparr>
     = ''type=paystabl receipt=0xabc signature=sig agent=agent_123'' \<and>
   parsePaymentHeader ''type=paystabl receipt=0xabc signature=sig agent=agent_123''
     = \<lparr> p_type = Some [], p_receipt = None, p_signature = None, p_agent = None, p_amount = None \<rparr>"
proof -
  have "parsePaymentHeader ''type=paystabl receipt=0xabc signature=sig agent=agent_123''
     = \<lparr> p_type = Some [], p_receipt = None, p_signature = None, p_agent = None, p_amount = None \<rparr>"
    by (simp add: parsePaymentHeader_def replace_eq_amp_def URLSearchParams_def split_on_def
        Let_def parse_pair_def plus_to_space_def params_get_def)
  moreover have "formatPaymentHeader
     \<lparr> pr_txHash = ''0xabc'', pr_signature = ''sig'', pr_agentId = ''agent_123'', pr_receipt = () \<rparr>
     = ''type=paystabl receipt=0xabc signature=sig agent=agent_123''"
    by (simp add: formatPaymentHeader_def)
  ultimately show ?thesis
    using parsed_type_empty [of payment] parsed_field_empty [of "formatPaymentHeader payment"]
    by (simp add: parsePaymentHeader_def Let_def)
qed

section \<open>C10: the rate limiter\<close>

text \<open>What one call does, as the code's comment reads: below ten it admits and counts.\<close>

lemma checkRateLimit_below:
  assumes "(case attempts st (''payment_attempts:'' @ c) of None \<Rightarrow> 0 | Some a \<Rightarrow> a) = n"
    and "n < 10"
  shows "fst (checkRateLimit now c st) \<and>
         attempts (snd (checkRateLimit now c st)) (''payment_attempts:'' @ c) = Some (n + 1)"
  using assms by (simp add: checkRateLimit_def Let_def)

lemma checkRateLimit_full:
  assumes "attempts st (''payment_attempts:'' @ c) = Some n" and "10 \<le> n"
  shows "checkRateLimit now c st = (False, st)"
  using assms by (simp add: checkRateLimit_def Let_def)

lemma replicate_9: "replicate 9 x = [x, x, x, x, x, x, x, x, x]"
  by (simp add: numeral_eq_Suc)

lemma replicate_10: "replicate 10 x = [x, x, x, x, x, x, x, x, x, x]"
  by (simp add: numeral_eq_Suc)

text \<open>
  Claim C10 (at most 10 payment attempts are admitted per one-hour window, until the
  hourly reset clears the counter) does not hold of \<^verbatim>\<open>checkRateLimit\<close>, whose comment
  reads ``Max 10 payment attempts per hour'': every admitted call schedules a timer of
  its own that deletes the whole counter one hour after that call, so the timers of
  one window cut the next window short. One call at minute 0, nine calls at minute
  59, ten calls at minute 61 and ten calls at minute 120: the timer of the first call
  clears the counter at minute 60, the ten calls at minute 61 fill the window that
  opens there, the timers of the calls at minute 59 clear it at minute 119, 58
  minutes after it opened, and the ten calls at minute 120 are admitted. All 30 calls
  are admitted, 20 of them within the 59 minutes from minute 61 to minute 120. The
  limiter of the property, which clears a window one hour after it opened (here at
  minutes 60 and 121), admits the first 20 calls and refuses the ten at minute 120.
\<close>

theorem rate_limit_window_cut_short:
  "serve checkRateLimit
     ((0, ''c'') # replicate 9 (59 * 60 * 1000, ''c'') @ replicate 10 (61 * 60 * 1000, ''c'') @
      replicate 10 (120 * 60 * 1000, ''c'')) rate_limit_init
   = (0, ''c'') # replicate 9 (59 * 60 * 1000, ''c'') @ replicate 10 (61 * 60 * 1000, ''c'') @
      replicate 10 (120 * 60 * 1000, ''c'') \<and>
   serve hourly_window_limit
     ((0, ''c'') # replicate 9 (59 * 60 * 1000, ''c'') @ replicate 10 (61 * 60 * 1000, ''c'') @
      replicate 10 (120 * 60 * 1000, ''c'')) rate_limit_init
   = (0, ''c'') # replicate 9 (59 * 60 * 1000, ''c'') @ replicate 10 (61 * 60 * 1000, ''c'')"
proof -
  have a: "serve checkRateLimit
     ((0, ''c'') # replicate 9 (59 * 60 * 1000, ''c'') @ replicate 10 (61 * 60 * 1000, ''c'') @
      replicate 10 (120 * 60 * 1000, ''c'')) rate_limit_init
   = (0, ''c'') # replicate 9 (59 * 60 * 1000, ''c'') @ replicate 10 (61 * 60 * 1000, ''c'') @
      replicate 10 (120 * 60 * 1000, ''c'')"
    by (simp add: replicate_9 replicate_10 rate_limit_init_def checkRateLimit_def run_timers_def
      Let_def)
  have b: "serve hourly_window_limit
     ((0, ''c'') # replicate 9 (59 * 60 * 1000, ''c'') @ replicate 10 (61 * 60 * 1000, ''c'') @
      replicate 10 (120 * 60 * 1000, ''c'')) rate_limit_init
   = (0, ''c'') # replicate 9 (59 * 60 * 1000, ''c'') @ replicate 10 (61 * 60 * 1000, ''c'')"
    by (simp add: replicate_9 replicate_10 rate_limit_init_def hourly_window_limit_def
      run_timers_def Let_def)
  from a b show ?thesis by (rule conjI)
qed

section \<open>C1: a payment is consumed at most once\<close>

lemma verify_checks_Inr:
  assumes "verify_checks this used payment = Inr res"
  shows "p_receipt payment \<notin> set used"
  using assms
  by (auto simp: verify_checks_def checkPaymentUsed_def Let_def split: if_splits)

lemma verify_checks_used:
  assumes "p_receipt payment \<in> set used"
  shows "verify_checks this used payment =
     Inl (if \<not> verifySignature this payment then Invalid_payment_signature
          else if \<not> verifyTransactionExists this (p_receipt payment)
            then Payment_transaction_not_found
          else if td_amount (getTransactionDetails this (p_receipt payment)) < requiredAmount this
            then Insufficient_payment_amount
          else if td_recipient (getTransactionDetails this (p_receipt payment)) \<noteq> paymentAddress this
            then Payment_sent_to_wrong_address
          else Payment_already_consumed)"
  using assms by (simp add: verify_checks_def checkPaymentUsed_def Let_def)

lemma verifyPayment_Inr:
  assumes "verifyPayment this used payment = Inr (res, used')"
  shows "p_receipt payment \<notin> set used \<and> used' = used @ [p_receipt payment]"
proof -
  from assms obtain res' where c: "verify_checks this used payment = Inr res'"
    and u: "used' = markPaymentUsed used (p_receipt payment)"
    by (auto simp: verifyPayment_def split: sum.splits)
  from verify_checks_Inr [OF c] u show ?thesis by (simp add: markPaymentUsed_def)
qed

text \<open>
  Once a receipt is on the ledger and no suspended call holds it, no call for it
  succeeds and the ledger keeps it as it is, however the later calls overlap.
\<close>

lemma interleave_used:
  assumes "r \<in> set used" and "r \<notin> fst ` set suspended"
    and "interleave used suspended events = (outs, used')"
  shows "commits r outs = 0 \<and> count_list used' r = count_list used r \<and> r \<in> set used'"
  using assms
proof (induction events arbitrary: used suspended outs used')
  case Nil
  then show ?case by (simp add: commits_def)
next
  case (Cons ev events)
  show ?case
  proof (cases ev)
    case (Starts this payment)
    show ?thesis
    proof (cases "verify_checks this used payment")
      case (Inl e)
      obtain outs1 u1 where rest: "interleave used suspended events = (outs1, u1)"
        by (cases "interleave used suspended events")
      with Cons.prems(3) Starts Inl have "outs = (p_receipt payment, Inl e) # outs1" "used' = u1"
        by auto
      moreover from Cons.IH [OF Cons.prems(1,2) rest]
      have "commits r outs1 = 0 \<and> count_list u1 r = count_list used r \<and> r \<in> set u1" .
      ultimately show ?thesis by (simp add: commits_def)
    next
      case (Inr res)
      from verify_checks_Inr [OF Inr] Cons.prems(1) have ne: "p_receipt payment \<noteq> r" by auto
      with Cons.prems(2) have s: "r \<notin> fst ` set (suspended @ [(p_receipt payment, res)])"
        by auto
      from Cons.prems(3) Starts Inr
      have rest: "interleave used (suspended @ [(p_receipt payment, res)]) events = (outs, used')"
        by simp
      from Cons.IH [OF Cons.prems(1) s rest] show ?thesis .
    qed
  next
    case (Resumes k)
    show ?thesis
    proof (cases "k < length suspended")
      case False
      with Cons.prems(3) Resumes have "interleave used suspended events = (outs, used')" by simp
      from Cons.IH [OF Cons.prems(1,2) this] show ?thesis .
    next
      case True
      let ?r' = "fst (suspended ! k)"
      let ?used1 = "markPaymentUsed used ?r'"
      let ?susp1 = "take k suspended @ drop (Suc k) suspended"
      obtain outs1 u1 where rest: "interleave ?used1 ?susp1 events = (outs1, u1)"
        by (cases "interleave ?used1 ?susp1 events")
      from True have "suspended ! k \<in> set suspended" by simp
      with Cons.prems(2) have ne: "?r' \<noteq> r" by auto
      from Cons.prems(1) have in1: "r \<in> set ?used1" by (simp add: markPaymentUsed_def)
      have "set ?susp1 \<subseteq> set suspended"
        using set_take_subset [of k suspended] set_drop_subset [of "Suc k" suspended] by auto
      with Cons.prems(2) have s1: "r \<notin> fst ` set ?susp1" by auto
      from Cons.prems(3) Resumes True rest
      have "outs = (?r', Inr (snd (suspended ! k))) # outs1" "used' = u1" by auto
      moreover from Cons.IH [OF in1 s1 rest]
      have "commits r outs1 = 0 \<and> count_list u1 r = count_list ?used1 r \<and> r \<in> set u1" .
      ultimately show ?thesis using ne by (simp add: commits_def markPaymentUsed_def)
    qed
  qed
qed

lemma demo_first:
  "verifyPayment demo_verifier [] (demo_payment ''good'') =
     Inr (\<lparr> vr_valid = True, vr_amount = 250, vr_timestamp = 7 \<rparr>, [Some ''0xabc''])"
  by (simp add: verifyPayment_def verify_checks_def demo_verifier_def demo_payment_def
      checkPaymentUsed_def markPaymentUsed_def)

lemma demo_later:
  "interleave [Some ''0xabc''] []
     [Starts demo_verifier (demo_payment ''good''), Starts demo_verifier (demo_payment ''bad'')] =
   ([(Some ''0xabc'', Inl Payment_already_consumed),
     (Some ''0xabc'', Inl Invalid_payment_signature)], [Some ''0xabc''])"
  by (simp add: verify_checks_def demo_verifier_def demo_payment_def checkPaymentUsed_def
      markPaymentUsed_def)

text \<open>
  Two calls for the same receipt that overlap: both run their checks before either
  has marked the receipt, both succeed, and the ledger holds the receipt twice.
\<close>

lemma overlapping_calls_both_succeed:
  "interleave [] []
     [Starts demo_verifier (demo_payment ''good''), Starts demo_verifier (demo_payment ''good''),
      Resumes 0, Resumes 0] =
   ([(Some ''0xabc'', Inr \<lparr> vr_valid = True, vr_amount = 250, vr_timestamp = 7 \<rparr>),
     (Some ''0xabc'', Inr \<lparr> vr_valid = True, vr_amount = 250, vr_timestamp = 7 \<rparr>)],
    [Some ''0xabc'', Some ''0xabc''])"
  by (simp add: verify_checks_def demo_verifier_def demo_payment_def checkPaymentUsed_def
      markPaymentUsed_def)

text \<open>
  Claim C1 as stated (after a commit, every later attempt with the same receipt is
  rejected as already used) fails: \<^verbatim>\<open>verifyPayment\<close> checks the signature, the
  transaction, the amount and the recipient before it asks whether the payment was
  used, so a later attempt with the same receipt and another signature is rejected
  with ``Invalid payment signature''.
\<close>

theorem replay_rejection_reason_counterexample:
  "\<not> (\<forall>this used payment res used1 payment'.
        verifyPayment this used payment = Inr (res, used1) \<longrightarrow>
        p_receipt payment' = p_receipt payment \<longrightarrow>
        verifyPayment this used1 payment' = Inl Payment_already_consumed)"
proof
  assume h: "\<forall>this used payment res used1 payment'.
        verifyPayment this used payment = Inr (res, used1) \<longrightarrow>
        p_receipt payment' = p_receipt payment \<longrightarrow>
        verifyPayment this used1 payment' = Inl Payment_already_consumed"
  have "p_receipt (demo_payment ''bad'') = p_receipt (demo_payment ''good'')"
    by (simp add: demo_payment_def)
  with h demo_first
  have "verifyPayment demo_verifier [Some ''0xabc''] (demo_payment ''bad'') =
          Inl Payment_already_consumed"
    by blast
  then show False
    by (simp add: verifyPayment_def verify_checks_def demo_verifier_def demo_payment_def)
qed

text \<open>
  Claim C1, amended: after a call of \<^verbatim>\<open>verifyPayment\<close> that no other call overlapped
  has succeeded for a payment, and with no call for the same receipt suspended
  between its check and its mark at that moment, then however the later calls start,
  overlap and resume (whatever the verifier's fields and the chain are by then) no
  call with the same receipt succeeds and the ledger holds the receipt exactly once;
  a later call with the same receipt is rejected with the error of the first check
  it fails, in the order signature, transaction, amount, recipient, and with
  ``Payment already consumed'' when it passes all four.
\<close>

theorem commit_at_most_once:
  assumes "verifyPayment this used payment = Inr (res, used1)"
    and "p_receipt payment \<notin> fst ` set suspended"
    and "interleave used1 suspended events = (outs, used2)"
    and "p_receipt payment' = p_receipt payment"
  shows "commits (p_receipt payment) outs = 0 \<and>
         count_list used2 (p_receipt payment) = 1 \<and>
         verify_checks this' used2 payment' =
           Inl (if \<not> verifySignature this' payment' then Invalid_payment_signature
                else if \<not> verifyTransactionExists this' (p_receipt payment')
                  then Payment_transaction_not_found
                else if td_amount (getTransactionDetails this' (p_receipt payment'))
                          < requiredAmount this'
                  then Insufficient_payment_amount
                else if td_recipient (getTransactionDetails this' (p_receipt payment'))
                          \<noteq> paymentAddress this'
                  then Payment_sent_to_wrong_address
                else Payment_already_consumed) \<and>
         verifyPayment this' used2 payment' =
           Inl (if \<not> verifySignature this' payment' then Invalid_payment_signature
                else if \<not> verifyTransactionExists this' (p_receipt payment')
                  then Payment_transaction_not_found
                else if td_amount (getTransactionDetails this' (p_receipt payment'))
                          < requiredAmount this'
                  then Insufficient_payment_amount
                else if td_recipient (getTransactionDetails this' (p_receipt payment'))
                          \<noteq> paymentAddress this'
                  then Payment_sent_to_wrong_address
                else Payment_already_consumed)"
proof -
  from assms(1) have fresh: "p_receipt payment \<notin> set used"
    and u1: "used1 = used @ [p_receipt payment]"
    using verifyPayment_Inr by blast+
  then have in1: "p_receipt payment \<in> set used1"
    and c1: "count_list used1 (p_receipt payment) = 1"
    by (simp_all add: count_list_0_iff)
  from interleave_used [OF in1 assms(2,3)] c1
  have a: "commits (p_receipt payment) outs = 0"
    and b: "count_list used2 (p_receipt payment) = 1"
    and in2: "p_receipt payment \<in> set used2" by simp_all
  from in2 assms(4) have in2': "p_receipt payment' \<in> set used2" by simp
  note c = verify_checks_used [OF in2', of this']
  from c have d: "verifyPayment this' used2 payment' = Inl (projl (verify_checks this' used2 payment'))"
    by (simp add: verifyPayment_def)
  from c have e: "projl (verify_checks this' used2 payment') =
           (if \<not> verifySignature this' payment' then Invalid_payment_signature
                else if \<not> verifyTransactionExists this' (p_receipt payment')
                  then Payment_transaction_not_found
                else if td_amount (getTransactionDetails this' (p_receipt payment'))
                          < requiredAmount this'
                  then Insufficient_payment_amount
                else if td_recipient (getTransactionDetails this' (p_receipt payment'))
                          \<noteq> paymentAddress this'
                  then Payment_sent_to_wrong_address
                else Payment_already_consumed)"
    by simp
  from d e have f: "verifyPayment this' used2 payment' =
           Inl (if \<not> verifySignature this' payment' then Invalid_payment_signature
                else if \<not> verifyTransactionExists this' (p_receipt payment')
                  then Payment_transaction_not_found
                else if td_amount (getTransactionDetails this' (p_receipt payment'))
                          < requiredAmount this'
                  then Insufficient_payment_amount
                else if td_recipient (getTransactionDetails this' (p_receipt payment'))
                          \<noteq> paymentAddress this'
                  then Payment_sent_to_wrong_address
                else Payment_already_consumed)"
    by simp
  from a b c f show ?thesis by (intro conjI)
qed

theorem commit_at_most_once_witness:
  "verifyPayment demo_verifier [] (demo_payment ''good'') =
     Inr (\<lparr> vr_valid = True, vr_amount = 250, vr_timestamp = 7 \<rparr>, [Some ''0xabc'']) \<and>
   interleave [Some ''0xabc''] []
     [Starts demo_verifier (demo_payment ''good''), Starts demo_verifier (demo_payment ''bad'')] =
     ([(Some ''0xabc'', Inl Payment_already_consumed),
       (Some ''0xabc'', Inl Invalid_payment_signature)], [Some ''0xabc'']) \<and>
   commits (Some ''0xabc'')
     [(Some ''0xabc'', Inl Payment_already_consumed),
      (Some ''0xabc'', Inl Invalid_payment_signature)] = 0 \<and>
   count_list [Some ''0xabc''] (Some ''0xabc'') = 1 \<and>
   verify_checks demo_verifier [Some ''0xabc''] (demo_payment ''good'') =
     Inl Payment_already_consumed \<and>
   verify_checks demo_verifier [Some ''0xabc''] (demo_payment ''bad'') =
     Inl Invalid_payment_signature"
proof -
  have r: "p_receipt (demo_payment ''good'') = p_receipt (demo_payment ''good'')"
    "p_receipt (demo_payment ''bad'') = p_receipt (demo_payment ''good'')"
    by (simp_all add: demo_payment_def)
  have s: "p_receipt (demo_payment ''good'') \<notin> fst ` set []" by simp
  have rc: "p_receipt (demo_payment ''good'') = Some ''0xabc''" by (simp add: demo_payment_def)
  from commit_at_most_once [OF demo_first s demo_later r(1), of demo_verifier]
    commit_at_most_once [OF demo_first s demo_later r(2), of demo_verifier]
    rc demo_first demo_later
  show ?thesis by (simp add: demo_verifier_def demo_payment_def)
qed

section \<open>C5 and C6: what \<^verbatim>\<open>validateTransaction\<close> reports\<close>

text \<open>
  Claim C5 as stated (the checks run in the order allowlist, time window,
  per-transaction limit, velocity, periodic limits and stop at the first failure, so
  that the one reason reported is the earliest failing check's) fails: with a failing
  time check and an amount above the per-transaction limit, \<^verbatim>\<open>validateTransaction\<close>
  reports two errors, the spending limit's first.
\<close>

theorem first_failure_only_counterexample:
  "\<not> (\<forall>(this :: rat PolicyEnforcement) agentId transaction.
        \<not> valid (checkTimeRestrictions this (getPolicies this agentId)) \<longrightarrow>
        errors (validateTransaction this agentId transaction) =
          Some [error (checkTimeRestrictions this (getPolicies this agentId))])"
proof
  assume h: "\<forall>(this :: rat PolicyEnforcement) agentId transaction.
        \<not> valid (checkTimeRestrictions this (getPolicies this agentId)) \<longrightarrow>
        errors (validateTransaction this agentId transaction) =
          Some [error (checkTimeRestrictions this (getPolicies this agentId))]"
  let ?pe = "demo_enforcement (demo_policies ''25.00'' ''10.00'' ''10.00'') 0
               (check_failed ''Outside allowed hours'')"
  have e: "errors (validateTransaction ?pe ''agent_123'' \<lparr> tx_amount = ''30.00'' \<rparr>) =
          Some [Some ''Transaction exceeds per-transaction limit'', Some ''Outside allowed hours'']"
    by (simp add: validateTransaction_def checkSpendingLimits_def Let_def demo_enforcement_def
        demo_policies_def demo_parseFloat_def check_failed_def check_passed_def)
  have "\<not> valid (checkTimeRestrictions ?pe (getPolicies ?pe ''agent_123''))"
    by (simp add: demo_enforcement_def check_failed_def)
  with h have "errors (validateTransaction ?pe ''agent_123'' \<lparr> tx_amount = ''30.00'' \<rparr>) =
          Some [error (checkTimeRestrictions ?pe (getPolicies ?pe ''agent_123''))]"
    by blast
  with e show False by (simp add: demo_enforcement_def check_failed_def)
qed

text \<open>
  Claim C5, amended: \<^verbatim>\<open>validateTransaction\<close> evaluates all four checks (spending
  limits, time restrictions, velocity limits, suspicious activity; there is no
  allowlist check) whatever the others return; the request is valid when all four
  are, and the errors reported are those of all the failing checks, in that order.
  Only inside \<^verbatim>\<open>checkSpendingLimits\<close> does the first failure hide the next: the
  per-transaction limit is checked before the daily limit.
\<close>

theorem validateTransaction_reports_all:
  fixes this :: "('a :: {plus, ord}) PolicyEnforcement" and agentId :: string
    and transaction :: Transaction
  defines "s \<equiv> checkSpendingLimits this agentId (tx_amount transaction) (getPolicies this agentId)"
    and "t \<equiv> checkTimeRestrictions this (getPolicies this agentId)"
    and "v \<equiv> checkVelocityLimits this agentId (getPolicies this agentId)"
    and "a \<equiv> checkSuspiciousActivity this agentId transaction (getPolicies this agentId)"
  shows "valid (validateTransaction this agentId transaction) =
           (valid s \<and> valid t \<and> valid v \<and> valid a) \<and>
         errors (validateTransaction this agentId transaction) =
           Some ((if valid s then [] else [error s]) @ (if valid t then [] else [error t]) @
                 (if valid v then [] else [error v]) @ (if valid a then [] else [error a])) \<and>
         error s =
           (if parseFloat this (tx_amount transaction)
                 > parseFloat this (perTransactionLimit (getPolicies this agentId))
            then Some ''Transaction exceeds per-transaction limit''
            else if daily (getCurrentSpending this agentId) + parseFloat this (tx_amount transaction)
                      > parseFloat this (dailyLimit (getPolicies this agentId))
            then Some ''Transaction would exceed daily limit''
            else None)"
  unfolding s_def t_def v_def a_def
  by (simp add: validateTransaction_def checkSpendingLimits_def Let_def)

text \<open>
  Claim C6 as stated (an amount greater than or equal to the threshold requires
  approval) fails at equality: the only check that asks for approval is the
  per-transaction limit of \<^verbatim>\<open>checkSpendingLimits\<close>, and it compares with \<^verbatim>\<open>>\<close>. An
  amount of 25.00 against a limit of 25.00, all checks passing, does not require
  approval.
\<close>

theorem approval_threshold_counterexample:
  "\<not> (\<forall>(this :: rat PolicyEnforcement) agentId transaction.
        parseFloat this (perTransactionLimit (getPolicies this agentId))
          \<le> parseFloat this (tx_amount transaction) \<longrightarrow>
        requiresApproval (validateTransaction this agentId transaction) = Some True)"
proof
  assume h: "\<forall>(this :: rat PolicyEnforcement) agentId transaction.
        parseFloat this (perTransactionLimit (getPolicies this agentId))
          \<le> parseFloat this (tx_amount transaction) \<longrightarrow>
        requiresApproval (validateTransaction this agentId transaction) = Some True"
  let ?pe = "demo_enforcement (demo_policies ''25.00'' ''30.00'' ''30.00'') 0 check_passed"
  have "parseFloat ?pe (perTransactionLimit (getPolicies ?pe ''agent_123''))
          \<le> parseFloat ?pe (tx_amount \<lparr> tx_amount = ''25.00'' \<rparr>)"
    by (simp add: demo_enforcement_def demo_policies_def demo_parseFloat_def)
  with h
  have "requiresApproval (validateTransaction ?pe ''agent_123'' \<lparr> tx_amount = ''25.00'' \<rparr>) =
          Some True"
    by blast
  then show False
    by (simp add: validateTransaction_def checkSpendingLimits_def Let_def demo_enforcement_def
        demo_policies_def demo_parseFloat_def check_passed_def)
qed

text \<open>
  Claim C6, amended: when the amount is strictly greater than the per-transaction
  limit, \<^verbatim>\<open>validateTransaction\<close> returns \<^verbatim>\<open>requiresApproval: true\<close> (with
  \<^verbatim>\<open>valid: false\<close>) whatever the other checks return; and \<^verbatim>\<open>checkSpendingLimits\<close> asks
  for approval in that case only.
\<close>

theorem approval_above_limit:
  fixes this :: "('a :: {plus, ord}) PolicyEnforcement"
  shows "(parseFloat this (tx_amount transaction)
            > parseFloat this (perTransactionLimit (getPolicies this agentId))
          \<longrightarrow> requiresApproval (validateTransaction this agentId transaction) = Some True \<and>
              \<not> valid (validateTransaction this agentId transaction)) \<and>
         (requiresApproval
            (checkSpendingLimits this agentId (tx_amount transaction) (getPolicies this agentId))
            = Some True
          \<longleftrightarrow> parseFloat this (tx_amount transaction)
                > parseFloat this (perTransactionLimit (getPolicies this agentId)))"
  by (simp add: validateTransaction_def checkSpendingLimits_def Let_def)

theorem approval_above_limit_witness:
  "demo_parseFloat ''30.00'' > demo_parseFloat ''25.00'' \<and>
   requiresApproval (validateTransaction
      (demo_enforcement (demo_policies ''25.00'' ''30.00'' ''30.00'') 0 check_passed) ''agent_123''
      \<lparr> tx_amount = ''30.00'' \<rparr>) = Some True \<and>
   \<not> valid (validateTransaction
      (demo_enforcement (demo_policies ''25.00'' ''30.00'' ''30.00'') 0 check_passed) ''agent_123''
      \<lparr> tx_amount = ''30.00'' \<rparr>)"
proof -
  have gt: "demo_parseFloat ''30.00'' > demo_parseFloat ''25.00''"
    by (simp add: demo_parseFloat_def)
  then have "parseFloat (demo_enforcement (demo_policies ''25.00'' ''30.00'' ''30.00'') 0 check_passed)
          (tx_amount \<lparr> tx_amount = ''30.00'' \<rparr>)
        > parseFloat (demo_enforcement (demo_policies ''25.00'' ''30.00'' ''30.00'') 0 check_passed)
          (perTransactionLimit (getPolicies
             (demo_enforcement (demo_policies ''25.00'' ''30.00'' ''30.00'') 0 check_passed)
             ''agent_123''))"
    by (simp add: demo_enforcement_def demo_policies_def)
  with approval_above_limit
       [of "demo_enforcement (demo_policies ''25.00'' ''30.00'' ''30.00'') 0 check_passed"
         "''agent_123''" "\<lparr> tx_amount = ''30.00'' \<rparr>"] gt
  show ?thesis by blast
qed

section \<open>C2: the spending limit of a window\<close>

lemma executePayment_checked:
  assumes "executePayment True w s r a ok = Inr w'"
  shows "s = aw_agent w \<and> aw_agent w' = aw_agent w \<and> dailyLimits w' = dailyLimits w \<and>
         unat (dailySpent w' s) = unat (dailySpent w s) + unat a \<and>
         dailySpent w' s \<le> dailyLimits w s"
proof -
  from assms have s: "s = aw_agent w" and no: "\<not> add_overflows (dailySpent w s) a"
    and le: "dailySpent w s + a \<le> dailyLimits w s"
    and w': "w' = w\<lparr> dailySpent := (dailySpent w)(s := dailySpent w s + a) \<rparr>"
    by (auto simp: executePayment_def Let_def split: if_splits)
  from no have "unat (dailySpent w s) + unat a < 2 ^ LENGTH(256)"
    by (simp add: add_overflows_def)
  then have "unat (dailySpent w s + a) = unat (dailySpent w s) + unat a"
    by (rule unat_add_lem [THEN iffD1])
  with s le w' show ?thesis by simp
qed

text \<open>
  Over a sequence of transactions the agent's counter grows by exactly what was paid,
  and once anything was paid it is within the limit.
\<close>

lemma execute_all_checked:
  assumes "execute_all True w calls = (outs, w')"
  shows "aw_agent w' = aw_agent w \<and> dailyLimits w' = dailyLimits w \<and>
         unat (dailySpent w' (aw_agent w)) = unat (dailySpent w (aw_agent w)) + committed outs \<and>
         (committed outs = 0 \<or> dailySpent w' (aw_agent w) \<le> dailyLimits w (aw_agent w))"
  using assms
proof (induction calls arbitrary: w outs w')
  case Nil
  then show ?case by (simp add: committed_def)
next
  case (Cons call calls)
  obtain s r a ok where call: "call = (s, r, a, ok)" by (cases call)
  show ?case
  proof (cases "executePayment True w s r a ok")
    case (Inl e)
    obtain outs1 w1 where rest: "execute_all True w calls = (outs1, w1)"
      by (cases "execute_all True w calls")
    with Cons.prems call Inl have "outs = Inl e # outs1" "w' = w1" by auto
    with Cons.IH [OF rest] show ?thesis by (simp add: committed_def)
  next
    case (Inr w1)
    obtain outs2 w2 where rest: "execute_all True w1 calls = (outs2, w2)"
      by (cases "execute_all True w1 calls")
    with Cons.prems call Inr have o: "outs = Inr a # outs2" "w' = w2" by auto
    from executePayment_checked [OF Inr]
    have s: "s = aw_agent w" and ag: "aw_agent w1 = aw_agent w"
      and lim: "dailyLimits w1 = dailyLimits w"
      and sp: "unat (dailySpent w1 s) = unat (dailySpent w s) + unat a"
      and le: "dailySpent w1 s \<le> dailyLimits w s" by blast+
    from Cons.IH [OF rest] ag lim
    have ih: "aw_agent w2 = aw_agent w" "dailyLimits w2 = dailyLimits w"
      "unat (dailySpent w2 (aw_agent w)) = unat (dailySpent w1 (aw_agent w)) + committed outs2"
      "committed outs2 = 0 \<or> dailySpent w2 (aw_agent w) \<le> dailyLimits w (aw_agent w)"
      by simp_all
    have c: "committed outs = unat a + committed outs2" using o by (simp add: committed_def)
    have "dailySpent w2 (aw_agent w) \<le> dailyLimits w (aw_agent w)"
    proof (cases "committed outs2 = 0")
      case True
      with ih(3) have "dailySpent w2 (aw_agent w) = dailySpent w1 (aw_agent w)"
        by (simp add: word_unat_eq_iff)
      with le s show ?thesis by simp
    next
      case False
      with ih(4) show ?thesis by simp
    qed
    with ih o c sp s show ?thesis by simp
  qed
qed

lemma committed_le_limit:
  "committed (fst (execute_all True w calls)) \<le> unat (dailyLimits w (aw_agent w))"
proof -
  obtain outs w' where e: "execute_all True w calls = (outs, w')"
    by (cases "execute_all True w calls")
  from execute_all_checked [OF e]
  have a: "unat (dailySpent w' (aw_agent w)) = unat (dailySpent w (aw_agent w)) + committed outs"
   and b: "committed outs = 0 \<or> dailySpent w' (aw_agent w) \<le> dailyLimits w (aw_agent w)"
    by simp_all
  from b show ?thesis
  proof
    assume "committed outs = 0"
    with e show ?thesis by simp
  next
    assume "dailySpent w' (aw_agent w) \<le> dailyLimits w (aw_agent w)"
    then have "unat (dailySpent w' (aw_agent w)) \<le> unat (dailyLimits w (aw_agent w))"
      by (simp add: word_le_nat_alt)
    with a e show ?thesis by simp
  qed
qed

text \<open>
  With arithmetic that wraps around, the counter still never passes the limit, but
  the total paid can: a counter of 6, a limit of 1000 and an amount of \<open>2^256 - 1\<close>
  pass the check, the sum wrapping to 5.
\<close>

lemma wrapping_admits_overflow:
  "fst (execute_all False (demo_wallet\<lparr> dailySpent := (\<lambda>a. 0)(1 := 6) \<rparr>) [(1, 2, - 1, True)])
     = [Inr (- 1)]"
  by (simp add: demo_wallet_def executePayment_def add_overflows_def Let_def)

lemma demo_wallet_run:
  "fst (execute_all True demo_wallet [(1, 2, 600, True), (1, 2, 600, True)]) =
     [Inr 600, Inl Daily_limit_exceeded]"
  by (simp add: demo_wallet_def executePayment_def add_overflows_def Let_def)

lemma demo_wallet_committed: "committed [Inr 600, Inl Daily_limit_exceeded] = 600"
  by (simp add: committed_def)

lemma spending_check_sound:
  fixes this :: "('a :: {plus, ord}) PolicyEnforcement"
  assumes "valid (checkSpendingLimits this agentId amount policies)"
  shows "\<not> parseFloat this amount > parseFloat this (perTransactionLimit policies) \<and>
         \<not> daily (getCurrentSpending this agentId) + parseFloat this amount
              > parseFloat this (dailyLimit policies)"
  using assms by (auto simp: checkSpendingLimits_def Let_def split: if_splits)

lemma demo_first_negotiation:
  "checkSpendingLimits (demo_enforcement (demo_policies ''10.00'' ''10.00'' ''30.00'') 0 check_passed)
     ''agent_123'' ''6.00'' (demo_policies ''10.00'' ''10.00'' ''30.00'') = check_passed"
  by (simp add: checkSpendingLimits_def Let_def demo_enforcement_def demo_policies_def
      demo_parseFloat_def check_passed_def)

lemma demo_second_negotiation:
  "checkSpendingLimits (demo_enforcement (demo_policies ''10.00'' ''10.00'' ''30.00'') 6 check_passed)
     ''agent_123'' ''6.00'' (demo_policies ''10.00'' ''10.00'' ''30.00'') =
   \<lparr> valid = False, error = Some ''Transaction would exceed daily limit'', errors = None,
     requiresApproval = Some False \<rparr>"
  by (simp add: checkSpendingLimits_def Let_def demo_enforcement_def demo_policies_def
      demo_parseFloat_def check_passed_def)

text \<open>
  Claim C2 as stated (for each of the day, week and month windows the committed sum
  stays within the window's limit) fails for the week and the month:
  \<^verbatim>\<open>SpendingPolicies\<close> has \<^verbatim>\<open>weeklyLimit\<close> and \<^verbatim>\<open>monthlyLimit\<close>, and
  \<^verbatim>\<open>checkSpendingLimits\<close> reads neither. A payment of 6.00 is approved under a weekly
  and monthly limit of 5.00 (daily and per-transaction limits 10.00), so that one
  committed payment already exceeds both.
\<close>

theorem weekly_limit_counterexample:
  "\<not> (\<forall>(this :: rat PolicyEnforcement) agentId amount policies.
        valid (checkSpendingLimits this agentId amount policies) \<longrightarrow>
        parseFloat this amount \<le> parseFloat this (weeklyLimit policies) \<or>
        parseFloat this amount \<le> parseFloat this (monthlyLimit policies))"
proof
  assume h: "\<forall>(this :: rat PolicyEnforcement) agentId amount policies.
        valid (checkSpendingLimits this agentId amount policies) \<longrightarrow>
        parseFloat this amount \<le> parseFloat this (weeklyLimit policies) \<or>
        parseFloat this amount \<le> parseFloat this (monthlyLimit policies)"
  let ?pe = "demo_enforcement (demo_policies ''10.00'' ''10.00'' ''5.00'') 0 check_passed"
  have "valid (checkSpendingLimits ?pe ''agent_123'' ''6.00''
                 (demo_policies ''10.00'' ''10.00'' ''5.00''))"
    by (simp add: checkSpendingLimits_def Let_def demo_enforcement_def demo_policies_def
      demo_parseFloat_def check_passed_def)
  with h
  have "parseFloat ?pe ''6.00''
          \<le> parseFloat ?pe (weeklyLimit (demo_policies ''10.00'' ''10.00'' ''5.00'')) \<or>
        parseFloat ?pe ''6.00''
          \<le> parseFloat ?pe (monthlyLimit (demo_policies ''10.00'' ''10.00'' ''5.00''))"
    by blast
  then show False
    by (simp add: demo_enforcement_def demo_policies_def demo_parseFloat_def)
qed

text \<open>
  Claim C2, amended to the daily window, the one the code enforces. In
  \<^verbatim>\<open>AgentWallet\<close> (checked arithmetic), over every sequence of \<^verbatim>\<open>executePayment\<close>
  transactions the total paid never exceeds the agent's daily limit, and the
  counter \<^verbatim>\<open>dailySpent\<close> grows by exactly that total; \<^verbatim>\<open>checkSpendingLimits\<close> approves
  an amount only if the day's spending plus the amount is not above the daily limit.
  The scenario: with a daily limit of 10.00 and an allowlisted recipient, of two
  payments of 6.00 the first is made and the second reverts with ``Daily limit
  exceeded'', 6.00 being paid in all; \<^verbatim>\<open>checkSpendingLimits\<close> approves the first (nothing
  spent) and refuses the second (6.00 spent) with ``Transaction would exceed daily
  limit''.
\<close>

theorem daily_limit_never_exceeded:
  fixes this :: "('a :: {plus, ord}) PolicyEnforcement"
  shows
  "committed (fst (execute_all True w calls)) \<le> unat (dailyLimits w (aw_agent w)) \<and>
   unat (dailySpent (snd (execute_all True w calls)) (aw_agent w)) =
     unat (dailySpent w (aw_agent w)) + committed (fst (execute_all True w calls)) \<and>
   (valid (checkSpendingLimits this agentId amount policies) \<longrightarrow>
      \<not> daily (getCurrentSpending this agentId) + parseFloat this amount
           > parseFloat this (dailyLimit policies)) \<and>
   fst (execute_all True demo_wallet [(1, 2, 600, True), (1, 2, 600, True)]) =
     [Inr 600, Inl Daily_limit_exceeded] \<and>
   committed [Inr 600, Inl Daily_limit_exceeded] = 600 \<and>
   checkSpendingLimits (demo_enforcement (demo_policies ''10.00'' ''10.00'' ''30.00'') 0 check_passed)
     ''agent_123'' ''6.00'' (demo_policies ''10.00'' ''10.00'' ''30.00'') = check_passed \<and>
   checkSpendingLimits (demo_enforcement (demo_policies ''10.00'' ''10.00'' ''30.00'') 6 check_passed)
     ''agent_123'' ''6.00'' (demo_policies ''10.00'' ''10.00'' ''30.00'') =
     \<lparr> valid = False, error = Some ''Transaction would exceed daily limit'', errors = None,
       requiresApproval = Some False \<rparr>"
proof -
  obtain outs w' where e: "execute_all True w calls = (outs, w')"
    by (cases "execute_all True w calls")
  from execute_all_checked [OF e]
  have "unat (dailySpent w' (aw_agent w)) = unat (dailySpent w (aw_agent w)) + committed outs"
    by simp
  with e have b: "unat (dailySpent (snd (execute_all True w calls)) (aw_agent w)) =
     unat (dailySpent w (aw_agent w)) + committed (fst (execute_all True w calls))" by simp
  have c: "valid (checkSpendingLimits this agentId amount policies) \<longrightarrow>
      \<not> daily (getCurrentSpending this agentId) + parseFloat this amount
           > parseFloat this (dailyLimit policies)"
    using spending_check_sound [of this agentId amount policies] by blast
  show ?thesis
    using committed_le_limit [of w calls] b c demo_wallet_run demo_wallet_committed
      demo_first_negotiation demo_second_negotiation
    by blast
qed

theorem daily_limit_never_exceeded_witness:
  "valid (checkSpendingLimits
      (demo_enforcement (demo_policies ''10.00'' ''10.00'' ''30.00'') 0 check_passed)
      ''agent_123'' ''6.00'' (demo_policies ''10.00'' ''10.00'' ''30.00'')) \<and>
   \<not> (0 :: rat) + demo_parseFloat ''6.00'' > demo_parseFloat ''10.00'' \<and>
   committed (fst (execute_all True demo_wallet [(1, 2, 600, True), (1, 2, 600, True)])) \<le> 1000"
proof -
  have v: "valid (checkSpendingLimits
      (demo_enforcement (demo_policies ''10.00'' ''10.00'' ''30.00'') 0 check_passed)
      ''agent_123'' ''6.00'' (demo_policies ''10.00'' ''10.00'' ''30.00''))"
    unfolding demo_first_negotiation by (simp add: check_passed_def)
  have l: "unat (dailyLimits demo_wallet (aw_agent demo_wallet)) = 1000"
    by (simp add: demo_wallet_def)
  from daily_limit_never_exceeded
    [of demo_wallet "[(1, 2, 600, True), (1, 2, 600, True)]"
      "demo_enforcement (demo_policies ''10.00'' ''10.00'' ''30.00'') 0 check_passed"
      "''agent_123''" "''6.00''" "demo_policies ''10.00'' ''10.00'' ''30.00''"] v l
  show ?thesis by (simp add: demo_enforcement_def demo_policies_def)
qed

section \<open>C3 and C4: what \<^verbatim>\<open>handleX402Response\<close> does with an offer\<close>

lemma demo_handled:
  "handleX402Response demo_handler demo_headers =
     ([\<lparr> rq_amount = 5 / 2, rq_currency = None, rq_purpose = Some ''API access fee'',
         rq_recipient = None \<rparr>],
      Inr \<lparr> X_Payment = ''type=paystabl receipt=0xabc signature=sig agent=agent_123'',
            X_Payment_Receipt = ''{}'' \<rparr>)"
  by (simp add: handleX402Response_def parseX402Headers_def demo_handler_def demo_headers_def
      formatPaymentHeader_def Let_def)

lemma demo_expiry:
  "pd_expiresAt (parseX402Headers demo_handler demo_headers) = Some 1705314600000"
  by (simp add: parseX402Headers_def demo_handler_def demo_headers_def Let_def)

lemma demo_amount: "pd_amount (parseX402Headers demo_handler demo_headers) = 5 / 2"
  by (simp add: parseX402Headers_def demo_handler_def demo_headers_def Let_def)

text \<open>
  Claim C3 as stated (an offer whose \<^verbatim>\<open>expiresAt\<close> is in the past is rejected with
  \<^verbatim>\<open>PAYMENT_EXPIRED\<close> and never reaches signing) fails: \<^verbatim>\<open>handleX402Response\<close> parses
  \<^verbatim>\<open>Payment-Expires\<close> and never compares it with the time. For the offer that expired
  at 1705314600000, one millisecond later, \<^verbatim>\<open>processPayment\<close> is called and the
  payment headers are returned: the offer is neither kept from signing nor rejected.
\<close>

theorem expired_offer_counterexample:
  "\<not> (\<forall>(this :: (string option, rat, string) X402Handler) headers t now.
        pd_expiresAt (parseX402Headers this headers) = Some t \<longrightarrow> t < now \<longrightarrow>
        fst (handleX402Response this headers) = [] \<or> isl (snd (handleX402Response this headers)))"
proof
  assume "\<forall>(this :: (string option, rat, string) X402Handler) headers t now.
        pd_expiresAt (parseX402Headers this headers) = Some t \<longrightarrow> t < now \<longrightarrow>
        fst (handleX402Response this headers) = [] \<or> isl (snd (handleX402Response this headers))"
  with demo_expiry have "(1705314600000 :: int) < 1705314600001 \<longrightarrow>
     fst (handleX402Response demo_handler demo_headers) = [] \<or>
     isl (snd (handleX402Response demo_handler demo_headers))"
    by blast
  then show False by (simp add: demo_handled)
qed

text \<open>
  Claim C3, amended: \<^verbatim>\<open>handleX402Response\<close> does not depend on the offer's expiry:
  whatever the \<^verbatim>\<open>Payment-Expires\<close> header is changed to (or removed), its calls and
  its result are the same, and it calls \<^verbatim>\<open>processPayment\<close> exactly once.
\<close>

theorem handler_ignores_expiry:
  "handleX402Response this (headers(''Payment-Expires'' := e)) = handleX402Response this headers \<and>
   length (fst (handleX402Response this headers)) = 1"
  by (simp add: handleX402Response_def parseX402Headers_def Let_def)

text \<open>
  Claim C4 as stated (an offer above the caller's ceiling is rejected with
  \<^verbatim>\<open>AMOUNT_EXCEEDS_CEILING\<close>, nothing is signed or paid) fails: \<^verbatim>\<open>handleX402Response\<close>
  takes no ceiling. For the offer of 2.50 and a ceiling of 2.00, \<^verbatim>\<open>processPayment\<close>
  is called with 2.50 and the payment headers are returned.
\<close>

theorem ceiling_counterexample:
  "\<not> (\<forall>(this :: (string option, rat, string) X402Handler) headers ceiling.
        ceiling < pd_amount (parseX402Headers this headers) \<longrightarrow>
        fst (handleX402Response this headers) = [] \<or> isl (snd (handleX402Response this headers)))"
proof
  assume "\<forall>(this :: (string option, rat, string) X402Handler) headers ceiling.
        ceiling < pd_amount (parseX402Headers this headers) \<longrightarrow>
        fst (handleX402Response this headers) = [] \<or> isl (snd (handleX402Response this headers))"
  then have "(2 :: rat) < pd_amount (parseX402Headers demo_handler demo_headers) \<longrightarrow>
     fst (handleX402Response demo_handler demo_headers) = [] \<or>
     isl (snd (handleX402Response demo_handler demo_headers))"
    by blast
  then show False by (simp add: demo_amount demo_handled)
qed

text \<open>
  Claim C4, amended: for every offer, whatever its amount, \<^verbatim>\<open>handleX402Response\<close>
  calls \<^verbatim>\<open>processPayment\<close> exactly once, with the amount parsed from
  \<^verbatim>\<open>Payment-Amount\<close>; it is rejected exactly when \<^verbatim>\<open>processPayment\<close> rejects, with
  that rejection, and the handler itself invokes no fallback.
\<close>

theorem handler_pays_any_amount:
  "fst (handleX402Response this headers) =
     [\<lparr> rq_amount = parseAmount this (headers ''Payment-Amount''), rq_currency = None,
        rq_purpose = headers ''Payment-Purpose'', rq_recipient = None \<rparr>] \<and>
   isl (snd (handleX402Response this headers)) =
     isl (processPayment this
        \<lparr> rq_amount = parseAmount this (headers ''Payment-Amount''), rq_currency = None,
          rq_purpose = headers ''Payment-Purpose'', rq_recipient = None \<rparr>) \<and>
   (\<forall>e. snd (handleX402Response this headers) = Inl e \<longleftrightarrow>
        processPayment this
        \<lparr> rq_amount = parseAmount this (headers ''Payment-Amount''), rq_currency = None,
          rq_purpose = headers ''Payment-Purpose'', rq_recipient = None \<rparr> = Inl e)"
  by (auto simp: handleX402Response_def parseX402Headers_def Let_def split: sum.splits)

section \<open>C9: the fallback chain ends\<close>









lemma base_inv_strategy [simp]: "base_inv (st\<lparr> retry_strategy := x \<rparr>) = base_inv st"
  by (simp add: base_inv_def switches_logged_def)

lemma logged_strategy [simp]:
  "attempts_logged (st\<lparr> retry_strategy := x \<rparr>) = attempts_logged st"
  by (simp add: attempts_logged_def)























section \<open>C8: retries with exponential backoff\<close>






end
